theory Spec2Isabelle
  imports Complex_Main "HOL-Library.Multiset" "HOL-Library.Char_ord" "HOL-Library.List_Lexorder"
begin

section \<open>Telemetry timeline and playback engine of the F1 telemetry viewer\<close>

text \<open>
  The development embeds the pure core of \<^verbatim>\<open>src/telemetry.py\<close>, \<^verbatim>\<open>src/helpers.py\<close>,
  \<^verbatim>\<open>src/viewer.py\<close> and \<^verbatim>\<open>src/selector.py\<close>.

  Conventions of the embedding.
  \<^item> A Python \<^verbatim>\<open>float\<close> holding a finite number is a \<^typ>\<open>real\<close>; arithmetic is exact.
    A cell that may be NaN or NaT (a coordinate, a time, a distance or a lap number of
    the raw telemetry, a position of a lap row, a time of the built timeline) is of an
    option type, \<open>None\<close> being NaN; arithmetic with NaN gives NaN (\<open>nan_minus\<close>), the
    minimum of numpy propagates NaN (\<open>np_min\<close>) and that of pandas skips it (\<open>pd_min\<close>).
    The viewer is embedded on timelines all of whose times and distances are numbers.
  \<^item> A function that can leave by an exception returns a sum, \<open>Inl\<close> the exception.
  \<^item> A pandas data frame is a list of rows (a record per row), so its columns have equal
    length by construction; an optional column is a presence flag of the frame.
  \<^item> A Python \<^verbatim>\<open>dict\<close> is an association list in insertion order.
  \<^item> \<^verbatim>\<open>DataFrame.sort_values('time')\<close> is called without \<^verbatim>\<open>kind\<close>, so pandas uses
    its default \<^verbatim>\<open>quicksort\<close>, for which only the contract of a sort is documented (the
    result is a rearrangement of the rows, ascending in the key) and stability is not.
    The library sort is therefore a parameter \<open>sort_values\<close> of the functions that call
    it, constrained in theorems by \<open>sort_values_spec\<close>.
  \<^item> Python's built-in \<^verbatim>\<open>sorted\<close> is stable by the language definition and is
    \<^const>\<open>sort_key\<close>; with \<^verbatim>\<open>reverse=True\<close> equal elements still keep their order.
    When a key is NaN the comparisons of \<^verbatim>\<open>sorted\<close> are not an order, and of the result
    only that it is a rearrangement of the input is used (\<open>sorted_by_key\<close>).
\<close>

subsection \<open>Data model\<close>

text \<open>
  A row of the timeline as \<^verbatim>\<open>run_viewer\<close> reads it: the columns of the built data
  frame, every time and distance a number.
\<close>

record sample =
  driver :: string
  time :: real
  xcoord :: real
  ycoord :: real
  lap :: int
  distance :: real

text \<open>The viewer adds the normalised screen coordinates \<^verbatim>\<open>xn\<close>, \<^verbatim>\<open>yn\<close> to every row.\<close>

record vsample = sample +
  xn :: int
  yn :: int

text \<open>
  What a time column of the raw telemetry is, as far as \<^verbatim>\<open>get_telemetry_time_seconds\<close>
  tells columns apart: absent; of dtype \<^verbatim>\<open>timedelta64\<close>; an object column whose first
  entry is a \<^verbatim>\<open>Timedelta\<close>; of dtype \<^verbatim>\<open>datetime64\<close>; an object column whose first
  entry is a \<^verbatim>\<open>Timestamp\<close>; a column that \<^verbatim>\<open>astype(float)\<close> converts; any other column
  (\<^verbatim>\<open>astype(float)\<close> raises on it, as it does on the time stamps).
\<close>

datatype col_kind =
  Missing | Timedelta64 | Timedelta_objects | Datetime64 | Timestamp_objects | Numeric | Other

text \<open>
  One row of a lap's raw telemetry: the coordinates and the two time columns in seconds
  and the distance (\<open>None\<close> is a NaN or NaT cell).
\<close>

record tel_row =
  X :: "real option"
  Y :: "real option"
  SessionTime :: "real option"
  Time :: "real option"
  Distance :: "real option"

record telemetry_df =
  has_X :: bool
  has_Y :: bool
  SessionTime_kind :: col_kind
  Time_kind :: col_kind
  has_Distance :: bool
  tel_rows :: "tel_row list"

text \<open>
  A row of \<^verbatim>\<open>session.laps\<close>. \<open>lap_telemetry\<close> is what \<^verbatim>\<open>lap.get_telemetry()\<close> gives:
  \<open>None\<close> when it raises or returns \<^verbatim>\<open>None\<close>. \<open>LapNumber\<close> and \<open>Position\<close> are \<open>None\<close>
  when the cell is NaN.
\<close>

record lap_row =
  Driver :: string
  LapNumber :: "int option"
  Position :: "real option"
  lap_telemetry :: "telemetry_df option"

text \<open>
  An entry of a column of times as \<^verbatim>\<open>to_epoch_seconds\<close> meets it, by the attempt of its
  chain that succeeds: \<^verbatim>\<open>pd.Timestamp(t).timestamp()\<close> returns the number;
  or that raises and \<^verbatim>\<open>t.total_seconds()\<close> returns the number; or \<^verbatim>\<open>t\<close> has no
  \<^verbatim>\<open>total_seconds\<close> and \<^verbatim>\<open>float(t)\<close> returns the number; or every attempt raises.
\<close>

datatype raw_time = By_timestamp real | By_total_seconds real | By_float real | Unconvertible

text \<open>
  The session: \<open>laps\<close> is \<open>None\<close> when \<^verbatim>\<open>session.laps\<close> is \<^verbatim>\<open>None\<close>; \<open>status_data\<close>
  is \<open>None\<close> when the session has no such attribute, otherwise its rows (time and
  status code, the code as \<^verbatim>\<open>str\<close> prints it).
\<close>

record session =
  laps :: "lap_row list option"
  status_data :: "(raw_time \<times> string) list option"

text \<open>
  A row of the data frame built by \<^verbatim>\<open>collect_session_telemetry\<close>. Its time is NaN for
  a row whose time cell was NaT, and then so is a distance derived from the times.
\<close>

record timeline_row =
  row_driver :: string
  row_time :: "real option"
  row_x :: real
  row_y :: real
  row_lap :: int
  row_distance :: "real option"

text \<open>The exceptions that the embedded code can raise.\<close>

datatype py_error = ValueError | ZeroDivisionError | AttributeError

text \<open>Subtraction of floats either of which may be NaN.\<close>

definition nan_minus :: "real option \<Rightarrow> real option \<Rightarrow> real option" where
  "nan_minus a b = (case a of None \<Rightarrow> None | Some u \<Rightarrow> (case b of None \<Rightarrow> None | Some v \<Rightarrow> Some (u - v)))"

subsection \<open>helpers.py: get_telemetry_time_seconds\<close>

text \<open>The fallback to the \<^verbatim>\<open>Time\<close> column; a \<^verbatim>\<open>datetime\<close> column counts from its first row.\<close>

definition time_fallback :: "telemetry_df \<Rightarrow> real option list option" where
  "time_fallback tel =
     (case Time_kind tel of
        Timedelta64 \<Rightarrow> Some (map Time (tel_rows tel))
      | Datetime64 \<Rightarrow>
          Some (map (\<lambda>r. nan_minus (Time r) (Time (hd (tel_rows tel)))) (tel_rows tel))
      | Timestamp_objects \<Rightarrow>
          Some (map (\<lambda>r. nan_minus (Time r) (Time (hd (tel_rows tel)))) (tel_rows tel))
      | _ \<Rightarrow> None)"

text \<open>
  On an object column of \<^verbatim>\<open>Timedelta\<close> entries the function calls the \<^verbatim>\<open>.dt\<close> accessor,
  which pandas has for datetime-like dtypes only: that raises \<^verbatim>\<open>AttributeError\<close>.
\<close>

definition get_telemetry_time_seconds :: "telemetry_df \<Rightarrow> py_error + real option list option" where
  "get_telemetry_time_seconds tel =
     (if tel_rows tel = [] then Inr None
      else case SessionTime_kind tel of
             Timedelta64 \<Rightarrow> Inr (Some (map SessionTime (tel_rows tel)))
           | Timedelta_objects \<Rightarrow> Inl AttributeError
           | Numeric \<Rightarrow> Inr (Some (map SessionTime (tel_rows tel)))
           | _ \<Rightarrow> Inr (time_fallback tel))"

subsection \<open>telemetry.py: collect_session_telemetry\<close>

text \<open>\<^verbatim>\<open>Series.unique()\<close>: the distinct values in order of first appearance.\<close>

fun unique :: "'a list \<Rightarrow> 'a list" where
  "unique [] = []"
| "unique (v # vs) = v # unique (filter (\<lambda>w. w \<noteq> v) vs)"

text \<open>The minimum and maximum of a non-empty array, as a left-to-right scan.\<close>

fun list_min :: "'a::linorder list \<Rightarrow> 'a" where
  "list_min [] = undefined"
| "list_min (v # vs) = fold min vs v"

fun list_max :: "'a::linorder list \<Rightarrow> 'a" where
  "list_max [] = undefined"
| "list_max (v # vs) = fold max vs v"

text \<open>
  The minimum of a non-empty numpy array is NaN when an entry is NaN; the minimum of a
  pandas column skips the NaN entries and is NaN when no other entry is left.
  \<open>valid_values\<close> are the entries of an array that are not NaN.
\<close>

definition np_min :: "real option list \<Rightarrow> real option" where
  "np_min ts = (if list_all (\<lambda>t. t \<noteq> None) ts then Some (list_min (map the ts)) else None)"

fun valid_values :: "'a option list \<Rightarrow> 'a list" where
  "valid_values [] = []"
| "valid_values (None # ts) = valid_values ts"
| "valid_values (Some v # ts) = v # valid_values ts"

definition pd_min :: "real option list \<Rightarrow> real option" where
  "pd_min ts =
     (case valid_values ts of [] \<Rightarrow> None | v # vs \<Rightarrow> Some (list_min (v # vs)))"

text \<open>
  The body of the loop over one driver's laps: \<open>Inr None\<close> is a \<^verbatim>\<open>continue\<close>,
  \<open>Inr (Some df)\<close> the frame appended to \<^verbatim>\<open>rows\<close>, \<open>Inl\<close> an exception that leaves the
  function. The mask keeps the rows whose X and Y are both not NaN; it does not look
  at the time.
\<close>

definition lap_frame :: "string \<Rightarrow> lap_row \<Rightarrow> py_error + timeline_row list option" where
  "lap_frame drv lp =
     (case lap_telemetry lp of
        None \<Rightarrow> Inr None
      | Some tel \<Rightarrow>
          if tel_rows tel = [] then Inr None
          else if \<not> (has_X tel \<and> has_Y tel) then Inr None
          else case get_telemetry_time_seconds tel of
                 Inl e \<Rightarrow> Inl e
               | Inr None \<Rightarrow> Inr None
               | Inr (Some t_seconds) \<Rightarrow>
                   let kept = filter (\<lambda>(r, t). X r \<noteq> None \<and> Y r \<noteq> None)
                                (zip (tel_rows tel) t_seconds)
                   in if kept = [] then Inr None
                      else
                        let ts = map snd kept;
                            lap_num = (case LapNumber lp of Some n \<Rightarrow> n | None \<Rightarrow> 0);
                            dists = (if has_Distance tel then map (\<lambda>(r, t). Distance r) kept
                                     else map (\<lambda>t. nan_minus t (np_min ts)) ts)
                        in Inr (Some (map (\<lambda>((r, t), d).
                                   \<lparr>row_driver = drv, row_time = t, row_x = the (X r),
                                    row_y = the (Y r), row_lap = lap_num, row_distance = d\<rparr>)
                                 (zip kept dists))))"

text \<open>
  The list \<^verbatim>\<open>rows\<close> after both loops: drivers in order of first appearance, each
  driver's laps in order; the first exception ends the loops.
\<close>

fun collect_laps :: "string \<Rightarrow> lap_row list \<Rightarrow> py_error + timeline_row list list" where
  "collect_laps drv [] = Inr []"
| "collect_laps drv (lp # lps) =
     (case lap_frame drv lp of
        Inl e \<Rightarrow> Inl e
      | Inr None \<Rightarrow> collect_laps drv lps
      | Inr (Some df) \<Rightarrow>
          (case collect_laps drv lps of Inl e \<Rightarrow> Inl e | Inr dfs \<Rightarrow> Inr (df # dfs)))"

fun collect_drivers :: "string list \<Rightarrow> lap_row list \<Rightarrow> py_error + timeline_row list list" where
  "collect_drivers [] ls = Inr []"
| "collect_drivers (drv # drvs) ls =
     (case collect_laps drv (filter (\<lambda>lp. Driver lp = drv) ls) of
        Inl e \<Rightarrow> Inl e
      | Inr dfs \<Rightarrow>
          (case collect_drivers drvs ls of Inl e \<Rightarrow> Inl e | Inr rest \<Rightarrow> Inr (dfs @ rest)))"

definition collect_rows :: "lap_row list \<Rightarrow> py_error + timeline_row list list" where
  "collect_rows ls = collect_drivers (unique (map Driver ls)) ls"

text \<open>\<^verbatim>\<open>pd.concat\<close>, then the shift by the global minimum time.\<close>

definition normalize_time :: "timeline_row list \<Rightarrow> timeline_row list" where
  "normalize_time full =
     (let global_min = pd_min (map row_time full)
      in map (\<lambda>s. s\<lparr>row_time := nan_minus (row_time s) global_min\<rparr>) full)"

definition collect_session_telemetry ::
  "(timeline_row list \<Rightarrow> timeline_row list) \<Rightarrow> session \<Rightarrow> py_error + timeline_row list option" where
  "collect_session_telemetry sort_values sess =
     (case laps sess of
        None \<Rightarrow> Inr None
      | Some ls \<Rightarrow>
          if ls = [] then Inr None
          else case collect_rows ls of
                 Inl e \<Rightarrow> Inl e
               | Inr rows \<Rightarrow>
                   if rows = [] then Inr None
                   else Inr (Some (sort_values (normalize_time (concat rows)))))"

text \<open>
  What pandas documents of \<^verbatim>\<open>sort_values('time')\<close> with the default \<^verbatim>\<open>kind\<close> and the
  default \<^verbatim>\<open>na_position='last'\<close>: the result holds the same rows, the rows with a time
  come first, ascending in the time, and the rows whose time is NaN come last.
\<close>

definition nan_last_le :: "real option \<Rightarrow> real option \<Rightarrow> bool" where
  "nan_last_le a b =
     (case b of None \<Rightarrow> True | Some v \<Rightarrow> (case a of None \<Rightarrow> False | Some u \<Rightarrow> u \<le> v))"

definition sort_values_na_last_spec :: "(timeline_row list \<Rightarrow> timeline_row list) \<Rightarrow> bool" where
  "sort_values_na_last_spec sort_values =
     (\<forall>rows. mset (sort_values rows) = mset rows \<and>
             sorted_wrt nan_last_le (map row_time (sort_values rows)))"

text \<open>
  The same contract for the rows of the viewer, which reads a timeline whose times are
  all numbers.
\<close>

definition sort_values_spec :: "('a sample_scheme list \<Rightarrow> 'a sample_scheme list) \<Rightarrow> bool" where
  "sort_values_spec sort_values =
     (\<forall>rows. mset (sort_values rows) = mset rows \<and> sorted (map time (sort_values rows)))"

subsection \<open>selector.py: F1Selector.load_data\<close>

text \<open>
  What \<^verbatim>\<open>load_data\<close> does after the session is loaded: it reports that no telemetry was
  found and returns; or its \<^verbatim>\<open>except\<close> branch reports the exception; or it schedules
  \<^verbatim>\<open>finish_loading\<close>, which calls \<^verbatim>\<open>run_viewer\<close>.
\<close>

datatype load_outcome =
  Report_Error string | Report_Exception py_error | Start_Viewer "timeline_row list"

definition load_data ::
  "(timeline_row list \<Rightarrow> timeline_row list) \<Rightarrow> session \<Rightarrow> load_outcome" where
  "load_data sort_values sess =
     (case collect_session_telemetry sort_values sess of
        Inl e \<Rightarrow> Report_Exception e
      | Inr None \<Rightarrow> Report_Error ''No telemetry data found''
      | Inr (Some telemetry) \<Rightarrow> Start_Viewer telemetry)"

subsection \<open>helpers.py: fmt_time\<close>

text \<open>\<^verbatim>\<open>str\<close> of an integer, in decimal.\<close>

definition digit_char :: "nat \<Rightarrow> char" where
  "digit_char d = ''0123456789'' ! d"

fun str_nat :: "nat \<Rightarrow> string" where
  "str_nat n = (if n < 10 then [digit_char n] else str_nat (n div 10) @ [digit_char (n mod 10)])"

definition str_int :: "int \<Rightarrow> string" where
  "str_int i = (if i < 0 then CHR ''-'' # str_nat (nat (- i)) else str_nat (nat i))"

text \<open>Rounding to the nearest integer, a tie going to the even neighbour, as a format does.\<close>

definition round_half_even :: "real \<Rightarrow> int" where
  "round_half_even r =
     (let f = \<lfloor>r\<rfloor>; d = r - of_int f
      in if d < 1 / 2 then f else if 1 / 2 < d then f + 1 else if even f then f else f + 1)"

definition zero_pad :: "nat \<Rightarrow> string \<Rightarrow> string" where
  "zero_pad w s = replicate (w - length s) CHR ''0'' @ s"

text \<open>The format \<^verbatim>\<open>06.3f\<close>: three decimals, zero-padded after the sign to six characters.\<close>

definition format_06_3f :: "real \<Rightarrow> string" where
  "format_06_3f v =
     (let m = round_half_even (v * 1000);
          body = str_int (\<bar>m\<bar> div 1000) @ ''.'' @ zero_pad 3 (str_int (\<bar>m\<bar> mod 1000))
      in if m < 0 then CHR ''-'' # zero_pad 5 body else zero_pad 6 body)"

definition fmt_time :: "real \<Rightarrow> string" where
  "fmt_time s =
     (let ss = (if s < 0 then 0 else s);
          minutes = \<lfloor>ss / 60\<rfloor>;
          seconds = ss - 60 * of_int minutes
      in str_int minutes @ '':'' @ format_06_3f seconds)"

subsection \<open>helpers.py: normalize_coords\<close>

text \<open>\<^verbatim>\<open>astype(int)\<close> and \<^verbatim>\<open>int(...)\<close> of a finite float: truncation towards zero.\<close>

definition py_int :: "real \<Rightarrow> int" where
  "py_int r = (if 0 \<le> r then \<lfloor>r\<rfloor> else \<lceil>r\<rceil>)"

text \<open>The lines \<^verbatim>\<open>dx = max_x - min_x if max_x != min_x else 1.0\<close> and its twin for y.\<close>

definition span :: "real list \<Rightarrow> real" where
  "span vs = (if list_max vs \<noteq> list_min vs then list_max vs - list_min vs else 1)"

text \<open>
  \<^verbatim>\<open>np.nanmin\<close> raises \<^verbatim>\<open>ValueError\<close> on an empty array; dividing a Python number by
  the float zero raises \<^verbatim>\<open>ZeroDivisionError\<close>.
\<close>

definition normalize_coords ::
  "real list \<Rightarrow> real list \<Rightarrow> int \<Rightarrow> int \<Rightarrow> int \<Rightarrow> py_error + (int list \<times> int list)" where
  "normalize_coords xs ys avail_w avail_h padding =
     (if xs = [] \<or> ys = [] then Inl ValueError
      else
        let min_x = list_min xs; min_y = list_min ys;
            dx = span xs; dy = span ys;
            effective_w = avail_w - padding * 2;
            effective_h = avail_h - padding * 2
        in if dx = 0 \<or> dy = 0 then Inl ZeroDivisionError
           else
             let scale = min (of_int effective_w / dx) (of_int effective_h / dy);
                 nx = map (\<lambda>v. (v - min_x) * scale + of_int padding) xs;
                 ny = map (\<lambda>v. of_int avail_h - ((v - min_y) * scale + of_int padding)) ys
             in Inr (map py_int nx, map py_int ny))"

subsection \<open>viewer.py: what run_viewer prepares before the loop\<close>

definition drivers_of :: "'a sample_scheme list \<Rightarrow> string list" where
  "drivers_of telemetry = unique (map driver telemetry)"


text \<open>\<^verbatim>\<open>total_laps\<close>: the NaN cells are skipped by \<^verbatim>\<open>max\<close>; \<^verbatim>\<open>int\<close> of NaN raises.\<close>

definition total_laps_of :: "lap_row list \<Rightarrow> py_error + int" where
  "total_laps_of lap_df =
     (if lap_df = [] then Inr 0
      else case List.map_filter LapNumber lap_df of
             [] \<Rightarrow> Inl ValueError
           | n # ns \<Rightarrow> Inr (list_max (n # ns)))"


text \<open>
  The dictionary \<^verbatim>\<open>driver_data\<close>. Its five parallel arrays are the columns of one frame
  \<^verbatim>\<open>g\<close>, so an entry is the list of the rows of \<^verbatim>\<open>g\<close>.
\<close>

definition driver_data_of ::
  "(vsample list \<Rightarrow> vsample list) \<Rightarrow> vsample list \<Rightarrow> (string \<times> vsample list) list" where
  "driver_data_of sort_values telemetry =
     map (\<lambda>drv. (drv, sort_values (filter (\<lambda>r. driver r = drv) telemetry)))
       (drivers_of telemetry)"


text \<open>
  \<^verbatim>\<open>to_epoch_seconds\<close>: per entry, the first attempt of the chain that succeeds gives the
  number, and NaN is appended when every attempt raises.
\<close>

definition to_epoch_seconds :: "raw_time list \<Rightarrow> real option list" where
  "to_epoch_seconds seq =
     map (\<lambda>t. case t of By_timestamp s \<Rightarrow> Some s | By_total_seconds d \<Rightarrow> Some d
              | By_float f \<Rightarrow> Some f | Unconvertible \<Rightarrow> None) seq"

text \<open>
  The status stream on the telemetry time base. \<open>telemetry_abs_min\<close> is \<open>None\<close> when the
  telemetry has no absolute time; then the stream counts from its own first entry, and
  is empty when all its times are NaN.
\<close>

definition align_status ::
  "real option \<Rightarrow> (raw_time \<times> string) list option \<Rightarrow> real option list \<times> string list" where
  "align_status telemetry_abs_min sd =
     (case sd of
        None \<Rightarrow> ([], [])
      | Some rows \<Rightarrow>
          if rows = [] then ([], [])
          else
            let sd_epoch = to_epoch_seconds (map fst rows);
                status_times =
                  (case telemetry_abs_min of
                     Some m \<Rightarrow> map (\<lambda>t. nan_minus t (Some m)) sd_epoch
                   | None \<Rightarrow>
                       if list_all (\<lambda>t. t = None) sd_epoch then []
                       else map (\<lambda>t. nan_minus t (hd sd_epoch)) sd_epoch)
            in (status_times, map snd rows))"

subsection \<open>viewer.py: the per-frame lookup\<close>

text \<open>
  \<^verbatim>\<open>np.searchsorted(a, v, side='right')\<close>: the binary search of numpy between \<open>lo\<close> and \<open>hi\<close>.
\<close>

function bisect_right :: "real list \<Rightarrow> real \<Rightarrow> nat \<Rightarrow> nat \<Rightarrow> nat" where
  "bisect_right a v lo hi =
     (if lo < hi then
        let mid = lo + (hi - lo) div 2
        in if v < a ! mid then bisect_right a v lo mid else bisect_right a v (mid + 1) hi
      else lo)"
  by pat_completeness auto
termination
  by (relation "measure (\<lambda>(a, v, lo, hi). hi - lo)") auto

declare bisect_right.simps [simp del]

definition searchsorted_right :: "real list \<Rightarrow> real \<Rightarrow> nat" where
  "searchsorted_right a v = bisect_right a v 0 (length a)"

text \<open>
  The same search in an array that may hold NaN: numpy's comparison of floats places NaN
  after every number, so the key is less than a NaN entry.
\<close>

function bisect_right_nan :: "real option list \<Rightarrow> real \<Rightarrow> nat \<Rightarrow> nat \<Rightarrow> nat" where
  "bisect_right_nan a v lo hi =
     (if lo < hi then
        let mid = lo + (hi - lo) div 2
        in if (case a ! mid of None \<Rightarrow> True | Some u \<Rightarrow> v < u)
           then bisect_right_nan a v lo mid else bisect_right_nan a v (mid + 1) hi
      else lo)"
  by pat_completeness auto
termination
  by (relation "measure (\<lambda>(a, v, lo, hi). hi - lo)") auto

declare bisect_right_nan.simps [simp del]

definition searchsorted_right_nan :: "real option list \<Rightarrow> real \<Rightarrow> nat" where
  "searchsorted_right_nan a v = bisect_right_nan a v 0 (length a)"

text \<open>
  The index of the sample shown for a driver: \<open>None\<close> when the driver has no sample
  (the \<^verbatim>\<open>continue\<close> of the loop), otherwise the clamped index.
\<close>

definition snapshot_index :: "real list \<Rightarrow> real \<Rightarrow> nat option" where
  "snapshot_index t_arr sim_t =
     (if t_arr = [] then None
      else
        let idx = int (searchsorted_right t_arr sim_t) - 1
        in Some (nat (if idx < 0 then 0
                      else if int (length t_arr) \<le> idx then int (length t_arr) - 1
                      else idx)))"

record driver_stat =
  st_time :: real
  st_lap :: int
  st_distance :: real
  st_xn :: int
  st_yn :: int
  progress_score :: real

definition driver_snapshot :: "real \<Rightarrow> vsample list \<Rightarrow> real \<Rightarrow> driver_stat option" where
  "driver_snapshot lap_distance_margin rows sim_t =
     (case snapshot_index (map time rows) sim_t of
        None \<Rightarrow> None
      | Some idx \<Rightarrow>
          let r = rows ! idx
          in Some \<lparr>st_time = time r, st_lap = lap r, st_distance = distance r,
                   st_xn = xn r, st_yn = yn r,
                   progress_score = of_int (lap r) * lap_distance_margin + distance r\<rparr>)"

text \<open>The dictionary \<^verbatim>\<open>driver_stats\<close> of a frame, in the order of \<^verbatim>\<open>driver_data\<close>.\<close>

definition driver_stats ::
  "real \<Rightarrow> (string \<times> vsample list) list \<Rightarrow> real \<Rightarrow> (string \<times> driver_stat) list" where
  "driver_stats lap_distance_margin driver_data sim_t =
     List.map_filter
       (\<lambda>(drv, rows). map_option (Pair drv) (driver_snapshot lap_distance_margin rows sim_t))
       driver_data"

subsection \<open>viewer.py: session info and status of a frame\<close>


definition current_status :: "real option list \<Rightarrow> string list \<Rightarrow> real \<Rightarrow> string" where
  "current_status status_times status_codes sim_t =
     (let current_status_idx = int (searchsorted_right_nan status_times sim_t) - 1
      in if 0 \<le> current_status_idx \<and> current_status_idx < int (length status_codes)
         then status_codes ! nat current_status_idx else ''1'')"

definition safety_str :: "string \<Rightarrow> string" where
  "safety_str st =
     (if st = ''3'' \<or> st = ''3.0'' then ''Safety Car Deployed''
      else if st = ''7'' \<or> st = ''7.0'' then ''VSC Deployed''
      else if st = ''2'' \<or> st = ''2.0'' then ''Safety Car Reported''
      else if st = ''5'' \<or> st = ''5.0'' then ''Yellow Flag''
      else if st = ''4'' \<or> st = ''4.0'' then ''Red Flag''
      else if st = ''6'' \<or> st = ''6.0'' \<or> st = ''8'' \<or> st = ''8.0'' then ''Safety Car Ending''
      else ''Green Flag'')"

subsection \<open>viewer.py: the leaderboard of a frame\<close>





definition gap_str :: "nat \<Rightarrow> real \<Rightarrow> int \<Rightarrow> real \<Rightarrow> int \<Rightarrow> string" where
  "gap_str pos leader_time leader_lap tm lap_num =
     (if lap_num = leader_lap then
        if pos = 1 then []
        else
          let gap_sec = leader_time - tm;
              gap_sec = (if gap_sec < 0 \<and> - 0.001 < gap_sec then 0 else gap_sec);
              gap_sec = max 0 gap_sec
          in '' +'' @ fmt_time gap_sec
      else
        let lap_diff = leader_lap - lap_num
        in if lap_diff \<le> 0 then []
           else if lap_diff = 1 then '' +1 lap''
           else '' +'' @ str_int lap_diff @ '' laps'')"

text \<open>
  The lines of the leaderboard: position, driver, formatted time and gap label of every
  entry of the ranked list, the leader being its first entry.
\<close>

definition leaderboard ::
  "(string \<times> driver_stat) list \<Rightarrow> (nat \<times> string \<times> string \<times> string) list" where
  "leaderboard ranked =
     (let leader_time = (case ranked of [] \<Rightarrow> 0 | e # _ \<Rightarrow> st_time (snd e));
          leader_lap = (case ranked of [] \<Rightarrow> 0 | e # _ \<Rightarrow> st_lap (snd e))
      in map (\<lambda>(pos, drv, info).
                (pos, drv, fmt_time (st_time info),
                 gap_str pos leader_time leader_lap (st_time info) (st_lap info)))
           (zip [1 ..< Suc (length ranked)] ranked))"


subsection \<open>viewer.py: the playback state and its loop\<close>

datatype key =
  K_SPACE | K_ESCAPE | K_q | K_UP | K_DOWN | K_PLUS | K_EQUALS | K_MINUS | K_UNDERSCORE |
  K_l | K_RIGHT | K_LEFT | K_other








subsection \<open>Example inputs\<close>

text \<open>
  A lap whose telemetry has a \<^verbatim>\<open>SessionTime\<close> column of dtype \<^verbatim>\<open>timedelta64\<close>, X and Y
  columns and no distance column; a point is its time cell and its coordinates.
\<close>

definition simple_lap ::
  "string \<Rightarrow> int \<Rightarrow> (real option \<times> real option \<times> real option) list \<Rightarrow> lap_row" where
  "simple_lap drv n pts =
     \<lparr>Driver = drv, LapNumber = Some n, Position = Some 1,
      lap_telemetry = Some \<lparr>has_X = True, has_Y = True, SessionTime_kind = Timedelta64,
        Time_kind = Missing, has_Distance = False,
        tel_rows = map (\<lambda>(t, px, py).
                     \<lparr>X = px, Y = py, SessionTime = t, Time = None, Distance = None\<rparr>) pts\<rparr>\<rparr>"

text \<open>
  Two drivers: three samples with a position and a time, one with a position and a NaT
  time, and one without an X coordinate.
\<close>

definition example_session :: session where
  "example_session =
     \<lparr>laps = Some [simple_lap ''VER'' 1 [(Some 12, Some 1, Some 1), (Some 14, Some 3, Some 1)],
                   simple_lap ''HAM'' 1 [(Some 10, Some 2, Some 2), (None, Some 4, Some 4),
                                         (Some 11, None, Some 5)]],
      status_data = None\<rparr>"

text \<open>A session whose only sample has a position and a NaT time.\<close>

definition nat_session :: session where
  "nat_session =
     \<lparr>laps = Some [simple_lap ''VER'' 1 [(None, Some 1, Some 1)]], status_data = None\<rparr>"

text \<open>A session none of whose laps has a sample with a valid position.\<close>

definition unusable_session :: session where
  "unusable_session =
     \<lparr>laps = Some [simple_lap ''VER'' 1 [(Some 10, None, Some 1)],
                   \<lparr>Driver = ''HAM'', LapNumber = Some 1, Position = Some 2, lap_telemetry = None\<rparr>],
      status_data = None\<rparr>"

text \<open>
  A sort of the built rows that meets \<open>sort_values_na_last_spec\<close>: the rows with a time,
  sorted, then the rows without one.
\<close>

definition sort_values_na_last :: "timeline_row list \<Rightarrow> timeline_row list" where
  "sort_values_na_last rows =
     sort_key (\<lambda>r. the (row_time r)) (filter (\<lambda>r. row_time r \<noteq> None) rows) @
     filter (\<lambda>r. row_time r = None) rows"

text \<open>A sort of the viewer's rows that meets \<open>sort_values_spec\<close>.\<close>

definition sort_values_stable :: "'a sample_scheme list \<Rightarrow> 'a sample_scheme list" where
  "sort_values_stable rows = sort_key time rows"

text \<open>A row of the viewer's telemetry: driver, time, lap and distance; the coordinates are 0.\<close>

definition pt :: "string \<Rightarrow> real \<Rightarrow> int \<Rightarrow> real \<Rightarrow> vsample" where
  "pt drv t n d =
     \<lparr>driver = drv, time = t, xcoord = 0, ycoord = 0, lap = n, distance = d, xn = 0, yn = 0\<rparr>"

text \<open>
  The scenario of the specification: driver A sampled at 0, 10, 20 (laps 0, 1, 1;
  distances 0, 50, 150) and driver B at 0, 15 (laps 0, 1; distances 0, 80).
\<close>

definition scenario_telemetry :: "vsample list" where
  "scenario_telemetry =
     [pt ''A'' 0 0 0, pt ''B'' 0 0 0, pt ''A'' 10 1 50, pt ''B'' 15 1 80, pt ''A'' 20 1 150]"



text \<open>A snapshot with screen coordinates 0.\<close>

definition stat :: "real \<Rightarrow> int \<Rightarrow> real \<Rightarrow> real \<Rightarrow> driver_stat" where
  "stat tm n d score =
     \<lparr>st_time = tm, st_lap = n, st_distance = d, st_xn = 0, st_yn = 0, progress_score = score\<rparr>"

text \<open>
  A lap whose \<^verbatim>\<open>SessionTime\<close> is an object column of time deltas.
\<close>

definition timedelta_objects_session :: session where
  "timedelta_objects_session =
     \<lparr>laps = Some [\<lparr>Driver = ''VER'', LapNumber = Some 1, Position = Some 1,
        lap_telemetry = Some \<lparr>has_X = True, has_Y = True, SessionTime_kind = Timedelta_objects,
          Time_kind = Missing, has_Distance = False,
          tel_rows = [\<lparr>X = None, Y = None, SessionTime = Some 10, Time = None, Distance = None\<rparr>]\<rparr>\<rparr>],
      status_data = None\<rparr>"

section \<open>Properties\<close>

subsection \<open>The timeline builder\<close>

lemma list_min_eq_Min: "vs \<noteq> [] \<Longrightarrow> list_min vs = Min (set vs)"
  by (cases vs) (simp_all only: list_min.simps Min.set_eq_fold)

lemma list_max_eq_Max: "vs \<noteq> [] \<Longrightarrow> list_max vs = Max (set vs)"
  by (cases vs) (simp_all only: list_max.simps Max.set_eq_fold)

lemma set_unique: "set (unique vs) = set vs"
  by (induction vs rule: unique.induct) auto

lemma time_seconds_length:
  "get_telemetry_time_seconds tel = Inr (Some ts) \<Longrightarrow> length ts = length (tel_rows tel)"
  by (auto simp: get_telemetry_time_seconds_def time_fallback_def split: if_splits col_kind.splits)

lemma time_seconds_Some_iff:
  "(\<exists>ts. get_telemetry_time_seconds tel = Inr (Some ts)) \<longleftrightarrow>
     tel_rows tel \<noteq> [] \<and>
     (SessionTime_kind tel \<in> {Timedelta64, Numeric} \<or>
      SessionTime_kind tel \<in> {Missing, Datetime64, Timestamp_objects, Other} \<and>
      Time_kind tel \<in> {Timedelta64, Datetime64, Timestamp_objects})"
  by (cases "SessionTime_kind tel"; cases "Time_kind tel")
     (simp_all add: get_telemetry_time_seconds_def time_fallback_def)

lemma time_seconds_raises_iff:
  "(\<exists>e. get_telemetry_time_seconds tel = Inl e) \<longleftrightarrow>
     tel_rows tel \<noteq> [] \<and> SessionTime_kind tel = Timedelta_objects"
  by (cases "SessionTime_kind tel") (simp_all add: get_telemetry_time_seconds_def)

lemma kept_empty_iff:
  assumes "length ts = length rows"
  shows "filter (\<lambda>(r, t). X r \<noteq> None \<and> Y r \<noteq> None) (zip rows ts) = [] \<longleftrightarrow>
         \<not> (\<exists>r\<in>set rows. X r \<noteq> None \<and> Y r \<noteq> None)"
proof -
  have "fst ` set (zip rows ts) = set rows"
    using assms by (metis map_fst_zip set_map)
  then have "(\<exists>r\<in>set rows. X r \<noteq> None \<and> Y r \<noteq> None) \<longleftrightarrow>
             (\<exists>p\<in>set (zip rows ts). X (fst p) \<noteq> None \<and> Y (fst p) \<noteq> None)"
    by (metis (no_types, lifting) image_iff)
  then show ?thesis
    by (simp add: filter_empty_conv case_prod_unfold)
qed

lemma lap_frame_Some_iff:
  "(\<exists>df. lap_frame drv lp = Inr (Some df)) \<longleftrightarrow>
     (\<exists>tel. lap_telemetry lp = Some tel \<and> has_X tel \<and> has_Y tel \<and>
        (SessionTime_kind tel \<in> {Timedelta64, Numeric} \<or>
         SessionTime_kind tel \<in> {Missing, Datetime64, Timestamp_objects, Other} \<and>
         Time_kind tel \<in> {Timedelta64, Datetime64, Timestamp_objects}) \<and>
        (\<exists>r\<in>set (tel_rows tel). X r \<noteq> None \<and> Y r \<noteq> None))"
proof (cases "lap_telemetry lp")
  case None
  then show ?thesis by (simp add: lap_frame_def)
next
  case (Some tel)
  show ?thesis
  proof (cases "get_telemetry_time_seconds tel")
    case (Inl e)
    then have "\<not> (\<exists>ts. get_telemetry_time_seconds tel = Inr (Some ts))" by simp
    with Inl Some show ?thesis
      unfolding time_seconds_Some_iff by (auto simp: lap_frame_def)
  next
    case (Inr res)
    show ?thesis
    proof (cases res)
      case None
      with Inr have "\<not> (\<exists>ts. get_telemetry_time_seconds tel = Inr (Some ts))" by simp
      with Inr None Some show ?thesis
        unfolding time_seconds_Some_iff by (auto simp: lap_frame_def)
    next
      case (Some ts)
      with Inr have g: "get_telemetry_time_seconds tel = Inr (Some ts)" by simp
      then have len: "length ts = length (tel_rows tel)" by (rule time_seconds_length)
      from g have k: "tel_rows tel \<noteq> [] \<and>
         (SessionTime_kind tel \<in> {Timedelta64, Numeric} \<or>
          SessionTime_kind tel \<in> {Missing, Datetime64, Timestamp_objects, Other} \<and>
          Time_kind tel \<in> {Timedelta64, Datetime64, Timestamp_objects})"
        using time_seconds_Some_iff[of tel] by blast
      from g \<open>lap_telemetry lp = Some tel\<close> k kept_empty_iff[OF len] show ?thesis
        by (auto simp: lap_frame_def Let_def)
    qed
  qed
qed


lemma collect_laps_Inr:
  "collect_laps drv lps = Inr dfs \<Longrightarrow>
     set dfs = {df. \<exists>lp\<in>set lps. lap_frame drv lp = Inr (Some df)}"
proof (induction lps arbitrary: dfs)
  case Nil
  then show ?case by simp
next
  case (Cons lp lps)
  show ?case
  proof (cases "lap_frame drv lp")
    case (Inl e)
    with Cons.prems show ?thesis by simp
  next
    case (Inr res)
    show ?thesis
    proof (cases res)
      case None
      with Inr Cons.prems have "collect_laps drv lps = Inr dfs" by simp
      from Cons.IH[OF this] Inr None show ?thesis by auto
    next
      case (Some df)
      with Inr Cons.prems obtain dfs' where d: "collect_laps drv lps = Inr dfs'" "dfs = df # dfs'"
        by (auto split: sum.splits)
      from Cons.IH[OF d(1)] d(2) Inr Some show ?thesis by auto
    qed
  qed
qed

lemma collect_drivers_Inr:
  "collect_drivers drvs ls = Inr dfs \<Longrightarrow>
     set dfs = {df. \<exists>drv\<in>set drvs. \<exists>lp\<in>set ls. Driver lp = drv \<and> lap_frame drv lp = Inr (Some df)}"
proof (induction drvs arbitrary: dfs)
  case Nil
  then show ?case by simp
next
  case (Cons drv drvs)
  from Cons.prems obtain d1 d2 where
    d: "collect_laps drv (filter (\<lambda>lp. Driver lp = drv) ls) = Inr d1"
       "collect_drivers drvs ls = Inr d2" "dfs = d1 @ d2"
    by (auto split: sum.splits)
  from collect_laps_Inr[OF d(1)] Cons.IH[OF d(2)] d(3) show ?case by auto
qed

lemma collect_rows_Inr:
  assumes "collect_rows ls = Inr dfs"
  shows "set dfs = {df. \<exists>lp\<in>set ls. lap_frame (Driver lp) lp = Inr (Some df)}"
proof -
  have "set dfs = {df. \<exists>drv\<in>set (unique (map Driver ls)). \<exists>lp\<in>set ls.
                    Driver lp = drv \<and> lap_frame drv lp = Inr (Some df)}"
    using collect_drivers_Inr[OF assms[unfolded collect_rows_def]] .
  also have "\<dots> = {df. \<exists>lp\<in>set ls. lap_frame (Driver lp) lp = Inr (Some df)}"
    unfolding set_unique by force
  finally show ?thesis .
qed


lemma lap_frame_raises_iff:
  "(\<exists>e. lap_frame drv lp = Inl e) \<longleftrightarrow>
     (\<exists>tel. lap_telemetry lp = Some tel \<and> has_X tel \<and> has_Y tel \<and> tel_rows tel \<noteq> [] \<and>
        SessionTime_kind tel = Timedelta_objects)"
proof (cases "lap_telemetry lp")
  case None
  then show ?thesis by (simp add: lap_frame_def)
next
  case (Some tel)
  show ?thesis
  proof (cases "get_telemetry_time_seconds tel")
    case (Inl e)
    then have "tel_rows tel \<noteq> [] \<and> SessionTime_kind tel = Timedelta_objects"
      using time_seconds_raises_iff[of tel] by blast
    with Inl Some show ?thesis by (auto simp: lap_frame_def)
  next
    case (Inr res)
    then have "\<not> (tel_rows tel \<noteq> [] \<and> SessionTime_kind tel = Timedelta_objects)"
      using time_seconds_raises_iff[of tel] by auto
    with Inr Some show ?thesis
      by (auto simp: lap_frame_def Let_def split: option.splits)
  qed
qed

lemma collect_laps_Inl:
  "(\<exists>e. collect_laps drv lps = Inl e) \<longleftrightarrow> (\<exists>lp\<in>set lps. \<exists>e. lap_frame drv lp = Inl e)"
proof (induction lps)
  case Nil
  show ?case by simp
next
  case (Cons lp lps)
  show ?case
  proof (cases "lap_frame drv lp")
    case (Inl e)
    then show ?thesis by auto
  next
    case (Inr res)
    show ?thesis
    proof (cases res)
      case None
      with Inr Cons.IH show ?thesis by simp
    next
      case (Some df)
      with Inr have "(\<exists>e. collect_laps drv (lp # lps) = Inl e) \<longleftrightarrow>
          (\<exists>e. collect_laps drv lps = Inl e)"
        by (cases "collect_laps drv lps") simp_all
      with Inr Cons.IH show ?thesis by simp
    qed
  qed
qed

lemma collect_drivers_Inl:
  "(\<exists>e. collect_drivers drvs ls = Inl e) \<longleftrightarrow>
     (\<exists>drv\<in>set drvs. \<exists>lp\<in>set ls. Driver lp = drv \<and> (\<exists>e. lap_frame drv lp = Inl e))"
proof (induction drvs)
  case Nil
  show ?case by simp
next
  case (Cons drv drvs)
  let ?own = "collect_laps drv (filter (\<lambda>lp. Driver lp = drv) ls)"
  have own: "(\<exists>e. ?own = Inl e) \<longleftrightarrow>
      (\<exists>lp\<in>set ls. Driver lp = drv \<and> (\<exists>e. lap_frame drv lp = Inl e))"
    unfolding collect_laps_Inl by auto
  have "(\<exists>e. collect_drivers (drv # drvs) ls = Inl e) \<longleftrightarrow>
      (\<exists>e. ?own = Inl e) \<or> (\<exists>e. collect_drivers drvs ls = Inl e)"
    by (cases ?own; cases "collect_drivers drvs ls") simp_all
  with own Cons.IH show ?case by auto
qed

lemma collect_rows_Inl:
  "(\<exists>e. collect_rows ls = Inl e) \<longleftrightarrow> (\<exists>lp\<in>set ls. \<exists>e. lap_frame (Driver lp) lp = Inl e)"
  unfolding collect_rows_def collect_drivers_Inl set_unique by force

lemma lap_frame_error: "lap_frame drv lp = Inl e \<Longrightarrow> e = AttributeError"
  by (auto simp: lap_frame_def get_telemetry_time_seconds_def Let_def
      split: option.splits if_splits sum.splits col_kind.splits)




lemma nan_last_le_simps [simp]:
  "nan_last_le a None" "nan_last_le (Some u) (Some v) \<longleftrightarrow> u \<le> v" "\<not> nan_last_le None (Some v)"
  by (simp_all add: nan_last_le_def split: option.splits)

lemma sort_values_na_last_meets_spec: "sort_values_na_last_spec sort_values_na_last"
proof -
  have "sorted_wrt nan_last_le (map row_time (sort_values_na_last rows))" for rows
  proof -
    let ?valid = "filter (\<lambda>r. row_time r \<noteq> None) rows"
    have s: "sorted (map (\<lambda>r. the (row_time r)) (sort_key (\<lambda>r. the (row_time r)) ?valid))"
      by simp
    have v: "\<forall>r\<in>set (sort_key (\<lambda>r. the (row_time r)) ?valid). row_time r \<noteq> None" by simp
    have "sorted_wrt nan_last_le (map row_time zs)"
      if "sorted (map (\<lambda>r. the (row_time r)) zs)" "\<forall>r\<in>set zs. row_time r \<noteq> None" for zs
      using that by (induction zs) (auto simp: nan_last_le_def split: option.splits)
    from this[OF s v]
    have a: "sorted_wrt nan_last_le (map row_time (sort_key (\<lambda>r. the (row_time r)) ?valid))" .
    have b: "sorted_wrt nan_last_le (map row_time (filter (\<lambda>r. row_time r = None) rows))"
      by (induction rows) auto
    show ?thesis
      unfolding sort_values_na_last_def map_append sorted_wrt_append
      using a b by auto
  qed
  moreover have "mset (sort_values_na_last rows) = mset rows" for rows
    by (simp add: sort_values_na_last_def)
  ultimately show ?thesis by (simp add: sort_values_na_last_spec_def)
qed




lemma collect_rows_example:
  "collect_rows [simple_lap ''VER'' 1 [(Some 12, Some 1, Some 1), (Some 14, Some 3, Some 1)],
                 simple_lap ''HAM'' 1 [(Some 10, Some 2, Some 2), (None, Some 4, Some 4),
                                       (Some 11, None, Some 5)]] =
     Inr [[\<lparr>row_driver = ''VER'', row_time = Some 12, row_x = 1, row_y = 1, row_lap = 1,
            row_distance = Some 0\<rparr>,
           \<lparr>row_driver = ''VER'', row_time = Some 14, row_x = 3, row_y = 1, row_lap = 1,
            row_distance = Some 2\<rparr>],
          [\<lparr>row_driver = ''HAM'', row_time = Some 10, row_x = 2, row_y = 2, row_lap = 1,
            row_distance = None\<rparr>,
           \<lparr>row_driver = ''HAM'', row_time = None, row_x = 4, row_y = 4, row_lap = 1,
            row_distance = None\<rparr>]]"
  by (simp add: collect_rows_def lap_frame_def simple_lap_def get_telemetry_time_seconds_def
       np_min_def nan_minus_def Let_def)

lemma collect_example:
  "collect_session_telemetry sort_values_na_last example_session =
     Inr (Some
       [\<lparr>row_driver = ''HAM'', row_time = Some 0, row_x = 2, row_y = 2, row_lap = 1,
         row_distance = None\<rparr>,
        \<lparr>row_driver = ''VER'', row_time = Some 2, row_x = 1, row_y = 1, row_lap = 1,
         row_distance = Some 0\<rparr>,
        \<lparr>row_driver = ''VER'', row_time = Some 4, row_x = 3, row_y = 1, row_lap = 1,
         row_distance = Some 2\<rparr>,
        \<lparr>row_driver = ''HAM'', row_time = None, row_x = 4, row_y = 4, row_lap = 1,
         row_distance = None\<rparr>])"
  by (simp add: collect_session_telemetry_def example_session_def collect_rows_example
       normalize_time_def pd_min_def nan_minus_def sort_values_na_last_def Let_def)

lemma collect_rows_nat:
  "collect_rows [simple_lap ''VER'' 1 [(None, Some 1, Some 1)]] =
     Inr [[\<lparr>row_driver = ''VER'', row_time = None, row_x = 1, row_y = 1, row_lap = 1,
            row_distance = None\<rparr>]]"
  by (simp add: collect_rows_def lap_frame_def simple_lap_def get_telemetry_time_seconds_def
       np_min_def nan_minus_def Let_def)

lemma collect_nat_any_sort:
  assumes "sort_values_na_last_spec sort_values"
  shows "collect_session_telemetry sort_values nat_session =
     Inr (Some [\<lparr>row_driver = ''VER'', row_time = None, row_x = 1, row_y = 1, row_lap = 1,
                 row_distance = None\<rparr>])"
proof -
  let ?r = "\<lparr>row_driver = ''VER'', row_time = None, row_x = 1, row_y = 1, row_lap = 1,
             row_distance = None\<rparr>"
  from assms have "mset (sort_values [?r]) = mset [?r]"
    unfolding sort_values_na_last_spec_def by blast
  then have "sort_values [?r] = [?r]" by simp
  then show ?thesis
    by (simp add: collect_session_telemetry_def nat_session_def collect_rows_nat
          normalize_time_def pd_min_def nan_minus_def Let_def)
qed



text \<open>
  C8 (amended). When the builder returns, it returns \<^verbatim>\<open>None\<close> exactly when no lap has a
  telemetry with X and Y columns, a time column that is converted (a \<^verbatim>\<open>SessionTime\<close> of
  dtype \<^verbatim>\<open>timedelta64\<close> or convertible to \<^verbatim>\<open>float\<close>, or else a \<^verbatim>\<open>Time\<close> of dtype
  \<^verbatim>\<open>timedelta64\<close> or \<^verbatim>\<open>datetime64\<close> or of time stamps) and a row whose X and Y are both
  not NaN; the time cell of the row is not looked at. The builder raises instead of
  returning exactly when some lap has a non-empty telemetry with X and Y columns whose
  \<^verbatim>\<open>SessionTime\<close> is an object column of time deltas. The caller reports
  "No telemetry data found" exactly on \<^verbatim>\<open>None\<close>, reports the exception when the builder
  raises, and starts the viewer exactly on a timeline.
\<close>

theorem builder_None_iff:
  "(\<forall>res. collect_session_telemetry sort_values sess = Inr res \<longrightarrow>
      (res = None \<longleftrightarrow>
         \<not> (\<exists>lp\<in>set (case laps sess of None \<Rightarrow> [] | Some ls \<Rightarrow> ls).
              \<exists>tel. lap_telemetry lp = Some tel \<and> has_X tel \<and> has_Y tel \<and>
                (SessionTime_kind tel \<in> {Timedelta64, Numeric} \<or>
                 SessionTime_kind tel \<in> {Missing, Datetime64, Timestamp_objects, Other} \<and>
                 Time_kind tel \<in> {Timedelta64, Datetime64, Timestamp_objects}) \<and>
                (\<exists>r\<in>set (tel_rows tel). X r \<noteq> None \<and> Y r \<noteq> None)))) \<and>
   ((\<exists>e. collect_session_telemetry sort_values sess = Inl e) \<longleftrightarrow>
      (\<exists>lp\<in>set (case laps sess of None \<Rightarrow> [] | Some ls \<Rightarrow> ls).
         \<exists>tel. lap_telemetry lp = Some tel \<and> has_X tel \<and> has_Y tel \<and> tel_rows tel \<noteq> [] \<and>
           SessionTime_kind tel = Timedelta_objects)) \<and>
   (load_data sort_values sess = Report_Error ''No telemetry data found'' \<longleftrightarrow>
      collect_session_telemetry sort_values sess = Inr None) \<and>
   (\<forall>e. load_data sort_values sess = Report_Exception e \<longleftrightarrow>
      collect_session_telemetry sort_values sess = Inl e) \<and>
   (\<forall>telemetry. load_data sort_values sess = Start_Viewer telemetry \<longleftrightarrow>
      collect_session_telemetry sort_values sess = Inr (Some telemetry))"
proof -
  have 1: "res = None \<longleftrightarrow>
         \<not> (\<exists>lp\<in>set (case laps sess of None \<Rightarrow> [] | Some ls \<Rightarrow> ls).
              \<exists>tel. lap_telemetry lp = Some tel \<and> has_X tel \<and> has_Y tel \<and>
                (SessionTime_kind tel \<in> {Timedelta64, Numeric} \<or>
                 SessionTime_kind tel \<in> {Missing, Datetime64, Timestamp_objects, Other} \<and>
                 Time_kind tel \<in> {Timedelta64, Datetime64, Timestamp_objects}) \<and>
                (\<exists>r\<in>set (tel_rows tel). X r \<noteq> None \<and> Y r \<noteq> None))"
    if c: "collect_session_telemetry sort_values sess = Inr res" for res
  proof (cases "laps sess")
    case None
    with c show ?thesis by (simp add: collect_session_telemetry_def)
  next
    case (Some ls)
    show ?thesis
    proof (cases "ls = []")
      case True
      with c Some show ?thesis by (simp add: collect_session_telemetry_def)
    next
      case False
      with c Some obtain dfs where dfs: "collect_rows ls = Inr dfs"
        and r: "res = (if dfs = [] then None else Some (sort_values (normalize_time (concat dfs))))"
        by (auto simp: collect_session_telemetry_def split: sum.splits if_splits)
      have "dfs = [] \<longleftrightarrow> set dfs = {}" by simp
      also have "\<dots> \<longleftrightarrow> \<not> (\<exists>lp\<in>set ls. \<exists>df. lap_frame (Driver lp) lp = Inr (Some df))"
        unfolding collect_rows_Inr[OF dfs] by blast
      finally have "dfs = [] \<longleftrightarrow> \<not> (\<exists>lp\<in>set ls. \<exists>df. lap_frame (Driver lp) lp = Inr (Some df))" .
      with r Some show ?thesis by (simp add: lap_frame_Some_iff)
    qed
  qed
  have 2: "(\<exists>e. collect_session_telemetry sort_values sess = Inl e) \<longleftrightarrow>
      (\<exists>lp\<in>set (case laps sess of None \<Rightarrow> [] | Some ls \<Rightarrow> ls).
         \<exists>tel. lap_telemetry lp = Some tel \<and> has_X tel \<and> has_Y tel \<and> tel_rows tel \<noteq> [] \<and>
           SessionTime_kind tel = Timedelta_objects)"
  proof (cases "laps sess")
    case None
    then show ?thesis by (simp add: collect_session_telemetry_def)
  next
    case (Some ls)
    show ?thesis
    proof (cases "ls = []")
      case True
      with Some show ?thesis by (simp add: collect_session_telemetry_def)
    next
      case False
      with Some have "(\<exists>e. collect_session_telemetry sort_values sess = Inl e) \<longleftrightarrow>
          (\<exists>e. collect_rows ls = Inl e)"
        by (cases "collect_rows ls") (simp_all add: collect_session_telemetry_def)
      also have "\<dots> \<longleftrightarrow> (\<exists>lp\<in>set ls. \<exists>e. lap_frame (Driver lp) lp = Inl e)"
        by (rule collect_rows_Inl)
      finally show ?thesis using Some by (simp add: lap_frame_raises_iff)
    qed
  qed
  have 3: "load_data sort_values sess = Report_Error ''No telemetry data found'' \<longleftrightarrow>
      collect_session_telemetry sort_values sess = Inr None"
    by (simp add: load_data_def split: option.splits sum.splits)
  have 4: "load_data sort_values sess = Report_Exception e \<longleftrightarrow>
      collect_session_telemetry sort_values sess = Inl e" for e
    by (simp add: load_data_def split: option.splits sum.splits)
  have 5: "load_data sort_values sess = Start_Viewer telemetry \<longleftrightarrow>
      collect_session_telemetry sort_values sess = Inr (Some telemetry)" for telemetry
    by (simp add: load_data_def split: option.splits sum.splits)
  from 1 2 3 4 5 show ?thesis by blast
qed

lemma collect_unusable:
  "collect_session_telemetry sort_values unusable_session = Inr None"
  by (simp add: collect_session_telemetry_def unusable_session_def collect_rows_def
        lap_frame_def simple_lap_def get_telemetry_time_seconds_def Let_def)

lemma timedelta_objects_raise:
  "collect_session_telemetry sort_values timedelta_objects_session = Inl AttributeError"
  by (simp add: collect_session_telemetry_def timedelta_objects_session_def
        collect_rows_def lap_frame_def get_telemetry_time_seconds_def)

theorem builder_None_iff_witness:
  "collect_session_telemetry sort_values_na_last unusable_session = Inr None \<and>
   load_data sort_values_na_last unusable_session = Report_Error ''No telemetry data found'' \<and>
   collect_session_telemetry sort_values_na_last example_session \<noteq> Inr None \<and>
   load_data sort_values_na_last example_session \<noteq> Report_Error ''No telemetry data found'' \<and>
   collect_session_telemetry sort_values_na_last timedelta_objects_session = Inl AttributeError \<and>
   load_data sort_values_na_last timedelta_objects_session = Report_Exception AttributeError"
  using builder_None_iff[of sort_values_na_last unusable_session]
    builder_None_iff[of sort_values_na_last example_session]
    builder_None_iff[of sort_values_na_last timedelta_objects_session]
  by (simp add: collect_unusable collect_example timedelta_objects_raise)

text \<open>
  C8 as stated fails: the only row of the session has a position and a NaT time, so no
  lap contributes a row with valid position and parseable time; the builder keeps the
  row and returns a timeline, and the caller starts the viewer.
\<close>

theorem builder_keeps_nat_rows:
  "laps nat_session = Some [simple_lap ''VER'' 1 [(None, Some 1, Some 1)]] \<and>
   \<not> (\<exists>lp\<in>set [simple_lap ''VER'' 1 [(None, Some 1, Some 1)]].
        \<exists>tel. lap_telemetry lp = Some tel \<and>
          (\<exists>r\<in>set (tel_rows tel). X r \<noteq> None \<and> Y r \<noteq> None \<and> SessionTime r \<noteq> None)) \<and>
   collect_session_telemetry sort_values_na_last nat_session \<noteq> Inr None \<and>
   load_data sort_values_na_last nat_session =
     Start_Viewer [\<lparr>row_driver = ''VER'', row_time = None, row_x = 1, row_y = 1, row_lap = 1,
                    row_distance = None\<rparr>]"
  by (simp add: collect_nat_any_sort[OF sort_values_na_last_meets_spec] load_data_def)
     (simp add: nat_session_def simple_lap_def)

lemma list_min_le: "v \<in> set vs \<Longrightarrow> list_min vs \<le> v"
proof -
  assume v: "v \<in> set vs"
  then have "vs \<noteq> []" by auto
  then have "list_min vs = Min (set vs)" by (rule list_min_eq_Min)
  with v show ?thesis by simp
qed

lemma nan_minus_np_min_nonneg:
  assumes "t \<in> set ts" and "nan_minus t (np_min ts) = Some d"
  shows "0 \<le> d"
proof -
  from assms(2) obtain u m where t: "t = Some u" and m: "np_min ts = Some m" and d: "d = u - m"
    by (auto simp: nan_minus_def split: option.splits)
  from m have "m = list_min (map the ts)"
    by (auto simp: np_min_def split: if_splits)
  moreover have "u \<in> set (map the ts)" using assms(1) t by force
  then have "list_min (map the ts) \<le> u" by (rule list_min_le)
  ultimately have "m \<le> u" by simp
  with d show ?thesis by simp
qed

text \<open>
  Without a distance column the distance of a built row is the time since the start of
  its lap, so it is NaN or not negative.
\<close>

lemma fallback_distance_nonneg:
  assumes "lap_frame drv lp = Inr (Some df)" and "lap_telemetry lp = Some tel"
    and "\<not> has_Distance tel" and "s \<in> set df" and "row_distance s = Some d"
  shows "0 \<le> d"
proof -
  from assms(1,2) obtain t_seconds where
    g: "get_telemetry_time_seconds tel = Inr (Some t_seconds)"
    by (auto simp: lap_frame_def Let_def split: if_splits sum.splits option.splits)
  define kept where "kept = filter (\<lambda>(r, t). X r \<noteq> None \<and> Y r \<noteq> None) (zip (tel_rows tel) t_seconds)"
  define ts where "ts = map snd kept"
  define dists where "dists = map (\<lambda>t. nan_minus t (np_min ts)) ts"
  from assms(1,2,3) g have df: "df = map (\<lambda>((r, t), d).
        \<lparr>row_driver = drv, row_time = t, row_x = the (X r), row_y = the (Y r),
         row_lap = (case LapNumber lp of Some n \<Rightarrow> n | None \<Rightarrow> 0), row_distance = d\<rparr>)
      (zip kept dists)"
    by (auto simp: lap_frame_def Let_def kept_def ts_def dists_def split: if_splits)
  from assms(4) df obtain e where e: "e \<in> set (zip kept dists)" and s: "row_distance s = snd e"
    by (auto simp: case_prod_unfold)
  obtain k d' where ke: "e = (k, d')" by (cases e)
  with e have "d' \<in> set dists" by (auto dest: set_zip_rightD)
  with ke have "snd e \<in> set dists" by simp
  then obtain t where "t \<in> set ts" "snd e = nan_minus t (np_min ts)"
    by (auto simp: dists_def)
  with s assms(5) show ?thesis using nan_minus_np_min_nonneg[of t ts d] by simp
qed

subsection \<open>The contract of the sort in the viewer\<close>

lemma sort_values_stable_spec: "sort_values_spec sort_values_stable"
  by (simp add: sort_values_spec_def sort_values_stable_def)

subsection \<open>The per-frame lookup\<close>

lemma bisect_right_correct:
  assumes "sorted a" "lo \<le> hi" "hi \<le> length a"
    and "\<forall>i<lo. a ! i \<le> v" and "\<forall>i. hi \<le> i \<and> i < length a \<longrightarrow> v < a ! i"
  shows "lo \<le> bisect_right a v lo hi \<and> bisect_right a v lo hi \<le> hi \<and>
         (\<forall>i<bisect_right a v lo hi. a ! i \<le> v) \<and>
         (\<forall>i. bisect_right a v lo hi \<le> i \<and> i < length a \<longrightarrow> v < a ! i)"
  using assms
proof (induction a v lo hi rule: bisect_right.induct)
  case (1 a v lo hi)
  show ?case
  proof (cases "lo < hi")
    case False
    then have "bisect_right a v lo hi = lo" by (simp add: bisect_right.simps[of a v lo hi])
    with False "1.prems" show ?thesis by simp
  next
    case True
    define mid where "mid = lo + (hi - lo) div 2"
    have mid: "lo \<le> mid" "mid < hi" using True by (auto simp: mid_def)
    show ?thesis
    proof (cases "v < a ! mid")
      case lt: True
      have up: "\<forall>i. mid \<le> i \<and> i < length a \<longrightarrow> v < a ! i"
      proof (intro allI impI)
        fix i assume "mid \<le> i \<and> i < length a"
        then have "a ! mid \<le> a ! i" using \<open>sorted a\<close> by (auto simp: sorted_iff_nth_mono)
        with lt show "v < a ! i" by simp
      qed
      have eq: "bisect_right a v lo hi = bisect_right a v lo mid"
        using True lt by (simp add: bisect_right.simps[of a v lo hi] mid_def Let_def)
      have "lo \<le> bisect_right a v lo mid \<and> bisect_right a v lo mid \<le> mid \<and>
         (\<forall>i<bisect_right a v lo mid. a ! i \<le> v) \<and>
         (\<forall>i. bisect_right a v lo mid \<le> i \<and> i < length a \<longrightarrow> v < a ! i)"
        using "1.IH"(1)[OF True mid_def lt \<open>sorted a\<close>] mid "1.prems" up by simp
      with eq mid show ?thesis by auto
    next
      case ge: False
      have low: "\<forall>i<mid + 1. a ! i \<le> v"
      proof (intro allI impI)
        fix i assume "i < mid + 1"
        then have "a ! i \<le> a ! mid" using \<open>sorted a\<close> mid "1.prems"(3)
          by (auto simp: sorted_iff_nth_mono)
        with ge show "a ! i \<le> v" by simp
      qed
      have eq: "bisect_right a v lo hi = bisect_right a v (mid + 1) hi"
        using True ge by (simp add: bisect_right.simps[of a v lo hi] mid_def Let_def)
      have "mid + 1 \<le> bisect_right a v (mid + 1) hi \<and> bisect_right a v (mid + 1) hi \<le> hi \<and>
         (\<forall>i<bisect_right a v (mid + 1) hi. a ! i \<le> v) \<and>
         (\<forall>i. bisect_right a v (mid + 1) hi \<le> i \<and> i < length a \<longrightarrow> v < a ! i)"
        using "1.IH"(2)[OF True mid_def ge \<open>sorted a\<close>] mid "1.prems" low by simp
      with eq mid show ?thesis by auto
    qed
  qed
qed

lemma searchsorted_right_correct:
  assumes "sorted a"
  shows "searchsorted_right a v \<le> length a \<and>
         (\<forall>i<searchsorted_right a v. a ! i \<le> v) \<and>
         (\<forall>i. searchsorted_right a v \<le> i \<and> i < length a \<longrightarrow> v < a ! i)"
  using bisect_right_correct[OF assms, of 0 "length a" v] by (simp add: searchsorted_right_def)

lemma snapshot_index_sorted:
  assumes "sorted a" "a \<noteq> []"
  shows "snapshot_index a t = Some (searchsorted_right a t - 1)"
proof -
  have "searchsorted_right a t \<le> length a"
    using searchsorted_right_correct[OF assms(1)] by blast
  then show ?thesis using assms(2)
    by (auto simp: snapshot_index_def Let_def nat_diff_distrib)
qed

lemma snapshot_index_rightmost:
  assumes "sorted a" "a \<noteq> []"
  shows "\<exists>idx. snapshot_index a t = Some idx \<and> idx < length a \<and>
           (t < a ! 0 \<longrightarrow> idx = 0) \<and>
           (a ! 0 \<le> t \<longrightarrow> a ! idx \<le> t \<and> (\<forall>j. idx < j \<and> j < length a \<longrightarrow> t < a ! j))"
proof -
  let ?k = "searchsorted_right a t"
  have k: "?k \<le> length a" "\<forall>i<?k. a ! i \<le> t" "\<forall>i. ?k \<le> i \<and> i < length a \<longrightarrow> t < a ! i"
    using searchsorted_right_correct[OF assms(1), of t] by blast+
  have len: "0 < length a" using assms(2) by simp
  have 1: "?k - 1 < length a" using k(1) len by arith
  have 2: "t < a ! 0 \<longrightarrow> ?k - 1 = 0"
  proof
    assume "t < a ! 0"
    have "\<not> 0 < ?k"
    proof
      assume "0 < ?k"
      with k(2) have "a ! 0 \<le> t" by blast
      with \<open>t < a ! 0\<close> show False by simp
    qed
    then show "?k - 1 = 0" by simp
  qed
  have 3: "a ! 0 \<le> t \<longrightarrow> a ! (?k - 1) \<le> t \<and> (\<forall>j. ?k - 1 < j \<and> j < length a \<longrightarrow> t < a ! j)"
  proof
    assume le: "a ! 0 \<le> t"
    have "0 < ?k"
    proof (rule ccontr)
      assume "\<not> 0 < ?k"
      then have "t < a ! 0" using k(3) len by simp
      with le show False by simp
    qed
    then have "?k - 1 < ?k" by simp
    then have a1: "a ! (?k - 1) \<le> t" using k(2) by blast
    have a2: "\<forall>j. ?k - 1 < j \<and> j < length a \<longrightarrow> t < a ! j"
    proof (intro allI impI)
      fix j assume j: "?k - 1 < j \<and> j < length a"
      then have "?k \<le> j" by arith
      with j k(3) show "t < a ! j" by blast
    qed
    from a1 a2 show "a ! (?k - 1) \<le> t \<and> (\<forall>j. ?k - 1 < j \<and> j < length a \<longrightarrow> t < a ! j)" ..
  qed
  from snapshot_index_sorted[OF assms, of t] 1 2 3 show ?thesis by blast
qed

lemma set_drivers_of: "set (drivers_of telemetry) = driver ` set telemetry"
  by (simp add: drivers_of_def set_unique)

lemma driver_data_rows:
  assumes spec: "sort_values_spec sort_values"
    and mem: "(drv, rows) \<in> set (driver_data_of sort_values telemetry)"
  shows "rows \<noteq> []" and "sorted (map time rows)"
    and "set rows = {r \<in> set telemetry. driver r = drv}"
proof -
  from mem have drv: "drv \<in> driver ` set telemetry"
    and rows: "rows = sort_values (filter (\<lambda>r. driver r = drv) telemetry)"
    by (auto simp: driver_data_of_def set_drivers_of)
  from spec rows have m: "mset rows = mset (filter (\<lambda>r. driver r = drv) telemetry)"
    and s: "sorted (map time rows)" by (simp_all add: sort_values_spec_def)
  from m have "set rows = set (filter (\<lambda>r. driver r = drv) telemetry)" by (rule mset_eq_setD)
  then show set_eq: "set rows = {r \<in> set telemetry. driver r = drv}" by auto
  from drv set_eq show "rows \<noteq> []" by auto
  from s show "sorted (map time rows)" .
qed

lemma driver_stats_intro:
  assumes "(drv, rows) \<in> set driver_data" "driver_snapshot m rows t = Some s"
  shows "(drv, s) \<in> set (driver_stats m driver_data t)"
proof -
  let ?f = "\<lambda>(drv, rows). map_option (Pair drv) (driver_snapshot m rows t)"
  have f: "?f (drv, rows) = Some (drv, s)" using assms(2) by simp
  then have "(drv, rows) \<in> set (filter (\<lambda>e. ?f e \<noteq> None) driver_data)"
    using assms(1) by simp
  then have "(the \<circ> ?f) (drv, rows) \<in> set (map (the \<circ> ?f) (filter (\<lambda>e. ?f e \<noteq> None) driver_data))"
    by (simp only: set_map) (rule imageI)
  moreover have "(the \<circ> ?f) (drv, rows) = (drv, s)" using f by simp
  ultimately show ?thesis by (simp only: driver_stats_def List.map_filter_def)
qed

text \<open>
  C2. Every entry of \<^verbatim>\<open>driver_data\<close> has at least one sample, and for every query time
  the lookup of a frame yields an index into the driver's samples: index 0 when the
  time precedes the first sample, otherwise the rightmost sample whose time is at most
  the query time. The snapshot of the driver is never absent: it is made of the sample
  at that index, and it is the driver's entry in \<^verbatim>\<open>driver_stats\<close>.
\<close>

theorem snapshot_lookup_rightmost:
  assumes spec: "sort_values_spec sort_values"
    and mem: "(drv, rows) \<in> set (driver_data_of sort_values telemetry)"
  shows "rows \<noteq> [] \<and>
         (\<exists>idx. snapshot_index (map time rows) t = Some idx \<and> idx < length rows \<and>
            (t < time (rows ! 0) \<longrightarrow> idx = 0) \<and>
            (time (rows ! 0) \<le> t \<longrightarrow>
               time (rows ! idx) \<le> t \<and> (\<forall>j. idx < j \<and> j < length rows \<longrightarrow> t < time (rows ! j))) \<and>
            driver_snapshot margin rows t =
              Some \<lparr>st_time = time (rows ! idx), st_lap = lap (rows ! idx),
                    st_distance = distance (rows ! idx), st_xn = xn (rows ! idx),
                    st_yn = yn (rows ! idx),
                    progress_score = of_int (lap (rows ! idx)) * margin + distance (rows ! idx)\<rparr> \<and>
            (drv, \<lparr>st_time = time (rows ! idx), st_lap = lap (rows ! idx),
                   st_distance = distance (rows ! idx), st_xn = xn (rows ! idx),
                   st_yn = yn (rows ! idx),
                   progress_score = of_int (lap (rows ! idx)) * margin + distance (rows ! idx)\<rparr>)
              \<in> set (driver_stats margin (driver_data_of sort_values telemetry) t))"
proof -
  note r = driver_data_rows[OF spec mem]
  have ne: "map time rows \<noteq> []" using r(1) by simp
  from snapshot_index_rightmost[OF r(2) ne, of t]
  obtain idx where idx: "snapshot_index (map time rows) t = Some idx" "idx < length rows"
      "t < map time rows ! 0 \<longrightarrow> idx = 0"
      "map time rows ! 0 \<le> t \<longrightarrow> map time rows ! idx \<le> t \<and>
         (\<forall>j. idx < j \<and> j < length (map time rows) \<longrightarrow> t < map time rows ! j)"
    by auto
  let ?s = "\<lparr>st_time = time (rows ! idx), st_lap = lap (rows ! idx),
             st_distance = distance (rows ! idx), st_xn = xn (rows ! idx),
             st_yn = yn (rows ! idx),
             progress_score = of_int (lap (rows ! idx)) * margin + distance (rows ! idx)\<rparr>"
  have snap: "driver_snapshot margin rows t = Some ?s"
    using idx(1) by (simp add: driver_snapshot_def Let_def)
  have entry: "(drv, ?s) \<in> set (driver_stats margin (driver_data_of sort_values telemetry) t)"
    using mem snap by (rule driver_stats_intro)
  have len: "0 < length rows" using r(1) by simp
  have t0: "map time rows ! 0 = time (rows ! 0)" using len by (simp add: nth_map)
  have ti: "map time rows ! idx = time (rows ! idx)" using idx(2) by (simp add: nth_map)
  have first: "t < time (rows ! 0) \<longrightarrow> idx = 0" using idx(3) t0 by simp
  have right: "time (rows ! 0) \<le> t \<longrightarrow>
     time (rows ! idx) \<le> t \<and> (\<forall>j. idx < j \<and> j < length rows \<longrightarrow> t < time (rows ! j))"
  proof
    assume "time (rows ! 0) \<le> t"
    with idx(4) t0 have a: "map time rows ! idx \<le> t"
      and b: "\<forall>j. idx < j \<and> j < length (map time rows) \<longrightarrow> t < map time rows ! j" by simp_all
    have "\<forall>j. idx < j \<and> j < length rows \<longrightarrow> t < time (rows ! j)"
    proof (intro allI impI)
      fix j assume j: "idx < j \<and> j < length rows"
      with b have "t < map time rows ! j" by simp
      with j show "t < time (rows ! j)" by (simp add: nth_map)
    qed
    with a ti show "time (rows ! idx) \<le> t \<and> (\<forall>j. idx < j \<and> j < length rows \<longrightarrow> t < time (rows ! j))"
      by simp
  qed
  from idx(1) idx(2) first right snap entry have
    "\<exists>idx. snapshot_index (map time rows) t = Some idx \<and> idx < length rows \<and>
            (t < time (rows ! 0) \<longrightarrow> idx = 0) \<and>
            (time (rows ! 0) \<le> t \<longrightarrow>
               time (rows ! idx) \<le> t \<and> (\<forall>j. idx < j \<and> j < length rows \<longrightarrow> t < time (rows ! j))) \<and>
            driver_snapshot margin rows t =
              Some \<lparr>st_time = time (rows ! idx), st_lap = lap (rows ! idx),
                    st_distance = distance (rows ! idx), st_xn = xn (rows ! idx),
                    st_yn = yn (rows ! idx),
                    progress_score = of_int (lap (rows ! idx)) * margin + distance (rows ! idx)\<rparr> \<and>
            (drv, \<lparr>st_time = time (rows ! idx), st_lap = lap (rows ! idx),
                   st_distance = distance (rows ! idx), st_xn = xn (rows ! idx),
                   st_yn = yn (rows ! idx),
                   progress_score = of_int (lap (rows ! idx)) * margin + distance (rows ! idx)\<rparr>)
              \<in> set (driver_stats margin (driver_data_of sort_values telemetry) t)"
    by blast
  with r(1) show ?thesis by blast
qed

lemma driver_data_scenario:
  "driver_data_of sort_values_stable scenario_telemetry =
     [(''A'', [pt ''A'' 0 0 0, pt ''A'' 10 1 50, pt ''A'' 20 1 150]),
      (''B'', [pt ''B'' 0 0 0, pt ''B'' 15 1 80])]"
  by (simp add: driver_data_of_def drivers_of_def scenario_telemetry_def sort_values_stable_def
        pt_def)

theorem snapshot_lookup_rightmost_witness:
  "sort_values_spec (sort_values_stable :: vsample list \<Rightarrow> vsample list) \<and>
   (''A'', [pt ''A'' 0 0 0, pt ''A'' 10 1 50, pt ''A'' 20 1 150])
     \<in> set (driver_data_of sort_values_stable scenario_telemetry) \<and>
   snapshot_index (map time [pt ''A'' 0 0 0, pt ''A'' 10 1 50, pt ''A'' 20 1 150]) 12 = Some 1 \<and>
   snapshot_index (map time [pt ''A'' 0 0 0, pt ''A'' 10 1 50, pt ''A'' 20 1 150]) (- 5) = Some 0 \<and>
   driver_snapshot 1000 [pt ''A'' 0 0 0, pt ''A'' 10 1 50, pt ''A'' 20 1 150] 12 =
     Some (stat 10 1 50 1050) \<and>
   driver_snapshot 1000 [pt ''A'' 0 0 0, pt ''A'' 10 1 50, pt ''A'' 20 1 150] (- 5) =
     Some (stat 0 0 0 0)"
proof -
  have m: "(''A'', [pt ''A'' 0 0 0, pt ''A'' 10 1 50, pt ''A'' 20 1 150])
     \<in> set (driver_data_of sort_values_stable scenario_telemetry)"
    by (simp add: driver_data_scenario)
  have e1: "snapshot_index (map time [pt ''A'' 0 0 0, pt ''A'' 10 1 50, pt ''A'' 20 1 150]) 12 = Some 1"
    by (simp add: snapshot_index_def searchsorted_right_def bisect_right.simps pt_def)
  have e2: "snapshot_index (map time [pt ''A'' 0 0 0, pt ''A'' 10 1 50, pt ''A'' 20 1 150]) (- 5) = Some 0"
    by (simp add: snapshot_index_def searchsorted_right_def bisect_right.simps pt_def)
  have e3: "driver_snapshot 1000 [pt ''A'' 0 0 0, pt ''A'' 10 1 50, pt ''A'' 20 1 150] 12 =
     Some (stat 10 1 50 1050)"
    by (simp add: driver_snapshot_def snapshot_index_def searchsorted_right_def
          bisect_right.simps pt_def stat_def)
  have e4: "driver_snapshot 1000 [pt ''A'' 0 0 0, pt ''A'' 10 1 50, pt ''A'' 20 1 150] (- 5) =
     Some (stat 0 0 0 0)"
    by (simp add: driver_snapshot_def snapshot_index_def searchsorted_right_def
          bisect_right.simps pt_def stat_def)
  from snapshot_lookup_rightmost[OF sort_values_stable_spec m, of 12 1000]
    sort_values_stable_spec m e1 e2 e3 e4
  show ?thesis by (intro conjI)
qed

subsection \<open>Snapshots and progress score\<close>













subsection \<open>Standings\<close>


























subsection \<open>The playback state\<close>










subsection \<open>Coordinate normalisation\<close>

lemma list_min_le_max:
  fixes vs :: "real list"
  assumes "vs \<noteq> []"
  shows "list_min vs \<le> list_max vs"
proof -
  have "Min (set vs) \<le> Max (set vs)" using assms by (intro Min_le_iff[THEN iffD2]) (auto intro: exI[of _ "hd vs"])
  then show ?thesis using assms by (simp add: list_min_eq_Min list_max_eq_Max)
qed

lemma span_positive: "vs \<noteq> [] \<Longrightarrow> 0 < span vs"
  using list_min_le_max[of vs] by (auto simp: span_def)

lemma span_constant:
  assumes "vs \<noteq> []" "\<forall>v\<in>set vs. v = hd vs"
  shows "span vs = 1"
proof -
  have "set vs = {hd vs}" using assms by (cases vs) auto
  then have "Min (set vs) = hd vs" "Max (set vs) = hd vs" by simp_all
  then show ?thesis using assms(1) by (simp add: span_def list_min_eq_Min list_max_eq_Max)
qed

text \<open>
  C10. On non-empty coordinate arrays \<^verbatim>\<open>normalize_coords\<close> raises nothing and returns
  one integer per coordinate: both spans are positive, a span is 1 when all values
  of its array coincide, so the two divisions of the scale never divide by zero.
\<close>

theorem normalize_coords_total:
  assumes "xs \<noteq> []" "ys \<noteq> []"
  shows "0 < span xs \<and> 0 < span ys \<and>
         ((\<forall>v\<in>set xs. v = hd xs) \<longrightarrow> span xs = 1) \<and>
         ((\<forall>v\<in>set ys. v = hd ys) \<longrightarrow> span ys = 1) \<and>
         (\<exists>nx ny. normalize_coords xs ys avail_w avail_h padding = Inr (nx, ny) \<and>
                  length nx = length xs \<and> length ny = length ys)"
proof -
  have px: "0 < span xs" and py: "0 < span ys" using assms by (simp_all add: span_positive)
  have cx: "(\<forall>v\<in>set xs. v = hd xs) \<longrightarrow> span xs = 1" using span_constant[OF assms(1)] by blast
  have cy: "(\<forall>v\<in>set ys. v = hd ys) \<longrightarrow> span ys = 1" using span_constant[OF assms(2)] by blast
  have "\<exists>nx ny. normalize_coords xs ys avail_w avail_h padding = Inr (nx, ny) \<and>
                  length nx = length xs \<and> length ny = length ys"
    using assms px py by (simp add: normalize_coords_def Let_def)
  with px py cx cy show ?thesis by blast
qed

theorem normalize_coords_total_witness:
  "[5, 5, 5 :: real] \<noteq> [] \<and> [1, 3, 2 :: real] \<noteq> [] \<and> span [5, 5, 5] = 1 \<and>
   normalize_coords [5, 5, 5] [1, 3, 2] 1000 800 40 = Inr ([40, 40, 40], [760, 40, 400])"
proof -
  have a: "[5, 5, 5 :: real] \<noteq> []" and b: "[1, 3, 2 :: real] \<noteq> []" by simp_all
  have c: "normalize_coords [5, 5, 5] [1, 3, 2] 1000 800 40 = Inr ([40, 40, 40], [760, 40, 400])"
    by (simp add: normalize_coords_def span_def py_int_def Let_def)
  from normalize_coords_total[OF a b, of 1000 800 40] a b c show ?thesis by simp
qed

subsection \<open>Status lookup\<close>

lemma searchsorted_right_nan_empty: "searchsorted_right_nan [] v = 0"
  by (simp add: searchsorted_right_nan_def bisect_right_nan.simps)

lemma current_status_no_times: "current_status [] status_codes t = ''1''"
  by (simp add: current_status_def searchsorted_right_nan_empty)

text \<open>
  C9. For the aligned status stream [(0, '1'), (5, '4')] the lookup yields code '1'
  (Green Flag) at time 3 and code '4' (Red Flag) at time 6; at time -1 the index is -1,
  no entry matches and the label is Green Flag. The times of the stream are those of
  \<^verbatim>\<open>status_times\<close>, in seconds on the time base of the lookup: the alignment gives
  them for a status table whose times convert to the epoch seconds 100 and 105, both on
  a telemetry time base starting at 100 and counted from the table's own first entry.
  A missing or an empty status table gives empty arrays, and a table none of whose
  times converts gives an empty array of times when the telemetry has no absolute
  time; with no times the label is Green Flag at every time, whatever the codes.
\<close>

theorem status_lookup:
  "align_status (Some 100) (Some [(By_timestamp 100, ''1''), (By_timestamp 105, ''4'')]) =
     ([Some 0, Some 5], [''1'', ''4'']) \<and>
   align_status None (Some [(By_timestamp 100, ''1''), (By_timestamp 105, ''4'')]) =
     ([Some 0, Some 5], [''1'', ''4'']) \<and>
   current_status [Some 0, Some 5] [''1'', ''4''] 3 = ''1'' \<and> safety_str ''1'' = ''Green Flag'' \<and>
   current_status [Some 0, Some 5] [''1'', ''4''] 6 = ''4'' \<and> safety_str ''4'' = ''Red Flag'' \<and>
   int (searchsorted_right_nan [Some 0, Some 5] (- 1)) - 1 = - 1 \<and>
   safety_str (current_status [Some 0, Some 5] [''1'', ''4''] (- 1)) = ''Green Flag'' \<and>
   (\<forall>m. align_status m None = ([], []) \<and> align_status m (Some []) = ([], [])) \<and>
   align_status None (Some [(Unconvertible, ''4''), (Unconvertible, ''1'')]) = ([], [''4'', ''1'']) \<and>
   (\<forall>status_codes t. safety_str (current_status [] status_codes t) = ''Green Flag'')"
proof -
  have s: "searchsorted_right_nan [Some 0, Some 5] 3 = 1"
    "searchsorted_right_nan [Some 0, Some 5] 6 = 2"
    "searchsorted_right_nan [Some 0, Some 5] (- 1) = 0"
    by (simp_all add: searchsorted_right_nan_def bisect_right_nan.simps)
  have 0: "align_status (Some 100) (Some [(By_timestamp 100, ''1''), (By_timestamp 105, ''4'')]) =
     ([Some 0, Some 5], [''1'', ''4''])"
    by (simp add: align_status_def to_epoch_seconds_def nan_minus_def)
  have 1: "align_status None (Some [(By_timestamp 100, ''1''), (By_timestamp 105, ''4'')]) =
     ([Some 0, Some 5], [''1'', ''4''])"
    by (simp add: align_status_def to_epoch_seconds_def nan_minus_def)
  have 2: "current_status [Some 0, Some 5] [''1'', ''4''] 3 = ''1''"
    by (simp add: current_status_def s)
  have 3: "current_status [Some 0, Some 5] [''1'', ''4''] 6 = ''4''"
    by (simp add: current_status_def s)
  have 4: "current_status [Some 0, Some 5] [''1'', ''4''] (- 1) = ''1''"
    by (simp add: current_status_def s)
  have 5: "safety_str ''1'' = ''Green Flag''" "safety_str ''4'' = ''Red Flag''"
    by (simp_all add: safety_str_def)
  have 6: "\<forall>m. align_status m None = ([], []) \<and> align_status m (Some []) = ([], [])"
    by (simp add: align_status_def)
  have 7: "align_status None (Some [(Unconvertible, ''4''), (Unconvertible, ''1'')]) =
      ([], [''4'', ''1''])"
    by (simp add: align_status_def to_epoch_seconds_def)
  have 8: "\<forall>status_codes t. safety_str (current_status [] status_codes t) = ''Green Flag''"
    by (simp add: current_status_no_times safety_str_def)
  from 0 1 2 3 4 5 6 7 8 s(3) show ?thesis by simp
qed

subsection \<open>Gap labels\<close>

lemma replicate_small:
  "replicate 2 c = [c, c]" "replicate 3 c = [c, c, c]" "replicate 4 c = [c, c, c, c]"
  by (simp_all add: eval_nat_numeral)

lemma fmt_time_zero: "fmt_time 0 = ''0:00.000''"
  by (simp add: fmt_time_def format_06_3f_def round_half_even_def zero_pad_def str_int_def
        digit_char_def Let_def replicate_small)

lemma leaderboard_nth:
  assumes "i < length ranked"
  shows "leaderboard ranked ! i =
     (i + 1, fst (ranked ! i), fmt_time (st_time (snd (ranked ! i))),
      gap_str (i + 1) (st_time (snd (ranked ! 0))) (st_lap (snd (ranked ! 0)))
        (st_time (snd (ranked ! i))) (st_lap (snd (ranked ! i))))"
proof -
  from assms obtain e es where r: "ranked = e # es" by (cases ranked) auto
  have z: "zip [1 ..< Suc (length ranked)] ranked ! i = (i + 1, ranked ! i)"
    using assms by (simp add: nth_append del: upt_Suc)
  have len: "i < length (zip [1 ..< Suc (length ranked)] ranked)" using assms by simp
  show ?thesis
    unfolding leaderboard_def Let_def nth_map[OF len] z
    by (simp add: r case_prod_unfold)
qed

text \<open>
  C6. For an entry of the ranked list other than the first: on the leader's lap its gap
  label is the separator \<^verbatim>\<open>" +"\<close> followed by the formatted value of
  max(0, leader time - entry time), which is 0:00.000 for a difference in (-0.001, 0];
  one lap behind it is \<^verbatim>\<open>" +1 lap"\<close>, N > 1 laps behind \<^verbatim>\<open>" +N laps"\<close>, and with a
  negative lap difference it is empty.
\<close>

theorem gap_labels:
  assumes "0 < i" "i < length ranked"
  shows "fst (leaderboard ranked ! i) = i + 1 \<and>
    (st_lap (snd (ranked ! i)) = st_lap (snd (ranked ! 0)) \<longrightarrow>
       snd (snd (snd (leaderboard ranked ! i))) =
         '' +'' @ fmt_time (max 0 (st_time (snd (ranked ! 0)) - st_time (snd (ranked ! i))))) \<and>
    (st_lap (snd (ranked ! i)) = st_lap (snd (ranked ! 0)) \<and>
     - 0.001 < st_time (snd (ranked ! 0)) - st_time (snd (ranked ! i)) \<and>
     st_time (snd (ranked ! 0)) - st_time (snd (ranked ! i)) \<le> 0 \<longrightarrow>
       snd (snd (snd (leaderboard ranked ! i))) = '' +0:00.000'') \<and>
    (st_lap (snd (ranked ! 0)) - st_lap (snd (ranked ! i)) = 1 \<longrightarrow>
       snd (snd (snd (leaderboard ranked ! i))) = '' +1 lap'') \<and>
    (1 < st_lap (snd (ranked ! 0)) - st_lap (snd (ranked ! i)) \<longrightarrow>
       snd (snd (snd (leaderboard ranked ! i))) =
         '' +'' @ str_int (st_lap (snd (ranked ! 0)) - st_lap (snd (ranked ! i))) @ '' laps'') \<and>
    (st_lap (snd (ranked ! 0)) - st_lap (snd (ranked ! i)) < 0 \<longrightarrow>
       snd (snd (snd (leaderboard ranked ! i))) = [])"
proof -
  let ?lt = "st_time (snd (ranked ! 0))" and ?ll = "st_lap (snd (ranked ! 0))"
  let ?tm = "st_time (snd (ranked ! i))" and ?ln = "st_lap (snd (ranked ! i))"
  have lab: "snd (snd (snd (leaderboard ranked ! i))) = gap_str (i + 1) ?lt ?ll ?tm ?ln"
    and pos: "fst (leaderboard ranked ! i) = i + 1"
    by (simp_all add: leaderboard_nth[OF assms(2)])
  have p: "i + 1 \<noteq> 1" using assms(1) by simp
  have same: "?ln = ?ll \<longrightarrow> gap_str (i + 1) ?lt ?ll ?tm ?ln = '' +'' @ fmt_time (max 0 (?lt - ?tm))"
    using p by (auto simp: gap_str_def Let_def max_def)
  have jitter: "?ln = ?ll \<and> - 0.001 < ?lt - ?tm \<and> ?lt - ?tm \<le> 0 \<longrightarrow>
       gap_str (i + 1) ?lt ?ll ?tm ?ln = '' +0:00.000''"
  proof
    assume h: "?ln = ?ll \<and> - 0.001 < ?lt - ?tm \<and> ?lt - ?tm \<le> 0"
    then have "max 0 (?lt - ?tm) = 0" by simp
    with same h show "gap_str (i + 1) ?lt ?ll ?tm ?ln = '' +0:00.000''"
      by (simp add: fmt_time_zero)
  qed
  have one: "?ll - ?ln = 1 \<longrightarrow> gap_str (i + 1) ?lt ?ll ?tm ?ln = '' +1 lap''"
    by (auto simp: gap_str_def Let_def)
  have more: "1 < ?ll - ?ln \<longrightarrow>
      gap_str (i + 1) ?lt ?ll ?tm ?ln = '' +'' @ str_int (?ll - ?ln) @ '' laps''"
    by (auto simp: gap_str_def Let_def)
  have neg: "?ll - ?ln < 0 \<longrightarrow> gap_str (i + 1) ?lt ?ll ?tm ?ln = []"
    by (auto simp: gap_str_def Let_def)
  from pos same jitter one more neg show ?thesis unfolding lab by blast
qed

theorem gap_labels_witness:
  "(0::nat) < 1 \<and>
   1 < length [(''A'', stat 75 5 0 5000), (''B'', stat 75.0004 5 0 5000), (''C'', stat 70 2 0 2000)] \<and>
   fst (leaderboard
     [(''A'', stat 75 5 0 5000), (''B'', stat 75.0004 5 0 5000), (''C'', stat 70 2 0 2000)] ! 1) = 2 \<and>
   leaderboard [(''A'', stat 75 5 0 5000), (''B'', stat 75.0004 5 0 5000), (''C'', stat 70 2 0 2000)] =
     [(1, ''A'', ''1:15.000'', []), (2, ''B'', ''1:15.000'', '' +0:00.000''),
      (3, ''C'', ''1:10.000'', '' +3 laps'')] \<and>
   leaderboard [(''A'', stat 10 1 50 1050), (''B'', stat 0 0 0 0)] =
     [(1, ''A'', ''0:10.000'', []), (2, ''B'', ''0:00.000'', '' +1 lap'')] \<and>
   leaderboard [(''A'', stat 20 1 150 1150), (''B'', stat 15 1 80 1080)] =
     [(1, ''A'', ''0:20.000'', []), (2, ''B'', ''0:15.000'', '' +0:05.000'')]"
proof -
  have e1: "leaderboard [(''A'', stat 10 1 50 1050), (''B'', stat 0 0 0 0)] =
     [(1, ''A'', ''0:10.000'', []), (2, ''B'', ''0:00.000'', '' +1 lap'')]"
    by code_simp
  have e2: "leaderboard [(''A'', stat 20 1 150 1150), (''B'', stat 15 1 80 1080)] =
     [(1, ''A'', ''0:20.000'', []), (2, ''B'', ''0:15.000'', '' +0:05.000'')]"
    by code_simp
  have e3: "leaderboard [(''A'', stat 75 5 0 5000), (''B'', stat 75.0004 5 0 5000), (''C'', stat 70 2 0 2000)] =
     [(1, ''A'', ''1:15.000'', []), (2, ''B'', ''1:15.000'', '' +0:00.000''),
      (3, ''C'', ''1:10.000'', '' +3 laps'')]"
    by code_simp
  have i1: "(0::nat) < 1"
    and i2: "1 < length [(''A'', stat 75 5 0 5000), (''B'', stat 75.0004 5 0 5000), (''C'', stat 70 2 0 2000)]"
    by simp_all
  from gap_labels[OF i1 i2]
  have "fst (leaderboard
     [(''A'', stat 75 5 0 5000), (''B'', stat 75.0004 5 0 5000), (''C'', stat 70 2 0 2000)] ! 1) = 1 + 1"
    by (rule conjunct1)
  then have e4: "fst (leaderboard
     [(''A'', stat 75 5 0 5000), (''B'', stat 75.0004 5 0 5000), (''C'', stat 70 2 0 2000)] ! 1) = 2"
    by (simp only: one_add_one)
  from i1 i2 e4 e3 e1 e2 show ?thesis by (intro conjI)
qed

end
